theory Spec2Isabelle
  imports Complex_Main
begin

section \<open>The geocoding client of PokeAlarm/LocationServices/GMaps.py\<close>

text \<open>
  The class \<^verbatim>\<open>GMaps\<close> is a rate-limited, memoizing client of a Nominatim server.
  Its methods are embedded as functions that take the object's state and return the
  new one. What the methods get from outside is passed in:
  \<^item> the HTTP session, as a function from the request to an exception or a response;
  \<^item> the builtins \<^verbatim>\<open>float\<close> and \<^verbatim>\<open>format\<close> on floating-point numbers, as a record of
    functions over a type \<open>'f\<close> of floats that the model never looks into;
  \<^item> the constants of the module \<^verbatim>\<open>PokeAlarm.Unknown\<close>, as a record of values.
  Time is a real number: \<^verbatim>\<open>time.time()\<close> reads the field \<open>clock\<close> of the state and
  \<^verbatim>\<open>time.sleep(d)\<close> moves it forward by \<open>d\<close>.

  The arguments have the types of the source's type comments: an address and a language
  are strings, a coordinate is a tuple of two floats. The decorator
  \<^verbatim>\<open>synchronize_with\<close> lets one call run at a time, and one call at a time is what a
  function from state to state describes. The code is Python 2 (\<^verbatim>\<open>e.message\<close>).
\<close>

subsection \<open>Python values and exceptions\<close>

text \<open>
  The exceptions the code can meet, all subclasses of \<^verbatim>\<open>Exception\<close>. The first three are
  the classes the \<^verbatim>\<open>except\<close> clauses name.
\<close>

datatype error =
    HTTPError
  | Timeout
  | UserWarning
  | ValueError
  | IndexError
  | KeyError
  | TypeError
  | AttributeError
  | OtherException string

text \<open>What \<^verbatim>\<open>request.json()\<close> can yield; a JSON object is a list of its key-value pairs.\<close>

datatype 'f pyval =
    PNone
  | PBool bool
  | PInt int
  | PFloat 'f
  | PStr string
  | PList "'f pyval list"
  | PDict "(string \<times> 'f pyval) list"

text \<open>The builtins that work on floats.\<close>

record 'f python =
  float_of :: "'f pyval \<Rightarrow> error + 'f"  \<comment> \<open>\<^verbatim>\<open>float(v)\<close>\<close>
  format_5f :: "'f \<Rightarrow> string"  \<comment> \<open>\<^verbatim>\<open>'{:.5f}'.format(x)\<close>\<close>
  str_of :: "'f pyval \<Rightarrow> string"  \<comment> \<open>\<^verbatim>\<open>u'{}'.format(v)\<close> for a \<open>v\<close> that is not a string\<close>

text \<open>The constants \<^verbatim>\<open>Unknown.SMALL\<close>, \<^verbatim>\<open>Unknown.REGULAR\<close> and \<^verbatim>\<open>Unknown.EMPTY\<close>.\<close>

record 'f unknown =
  SMALL :: "'f pyval"
  REGULAR :: "'f pyval"
  EMPTY :: "'f pyval"

text \<open>\<^verbatim>\<open>str.lower()\<close> on ASCII text.\<close>

definition lower_char :: "char \<Rightarrow> char" where
  "lower_char c =
     (case map_of (zip ''ABCDEFGHIJKLMNOPQRSTUVWXYZ'' ''abcdefghijklmnopqrstuvwxyz'') c of
        Some d \<Rightarrow> d
      | None \<Rightarrow> c)"

definition lower :: "string \<Rightarrow> string" where
  "lower s = map lower_char s"

text \<open>\<^verbatim>\<open>s.split(sep)\<close> for a separator of one character: never an empty list.\<close>

fun py_split :: "char \<Rightarrow> string \<Rightarrow> string list" where
  "py_split sep [] = [[]]"
| "py_split sep (c # cs) =
     (if c = sep then [] # py_split sep cs
      else (case py_split sep cs of [] \<Rightarrow> [[c]] | w # ws \<Rightarrow> (c # w) # ws))"

text \<open>\<^verbatim>\<open>xs[i]\<close> for \<open>i \<ge> 0\<close>: IndexError out of range.\<close>

definition index :: "'a list \<Rightarrow> nat \<Rightarrow> error + 'a" where
  "index xs i = (if i < length xs then Inr (xs ! i) else Inl IndexError)"

fun starts_with :: "string \<Rightarrow> string \<Rightarrow> bool" where
  "starts_with [] ys = True"
| "starts_with (x # xs) [] = False"
| "starts_with (x # xs) (y # ys) = (x = y \<and> starts_with xs ys)"

fun substring :: "string \<Rightarrow> string \<Rightarrow> bool" where
  "substring k [] = (k = [])"
| "substring k (y # ys) = (starts_with k (y # ys) \<or> substring k ys)"

text \<open>
  \<^verbatim>\<open>k in v\<close> for a string \<open>k\<close>: a key of a dict, an element of a list, a substring of a
  string; any other value is not iterable.
\<close>

fun py_in :: "string \<Rightarrow> 'f pyval \<Rightarrow> error + bool" where
  "py_in k (PDict d) = Inr (map_of d k \<noteq> None)"
| "py_in k (PList xs) = Inr (PStr k \<in> set xs)"
| "py_in k (PStr s) = Inr (substring k s)"
| "py_in k PNone = Inl TypeError"
| "py_in k (PBool b) = Inl TypeError"
| "py_in k (PInt i) = Inl TypeError"
| "py_in k (PFloat x) = Inl TypeError"

text \<open>\<^verbatim>\<open>v[k]\<close> for a string \<open>k\<close>: only a dict can be indexed by a string.\<close>

fun py_getitem :: "'f pyval \<Rightarrow> string \<Rightarrow> error + 'f pyval" where
  "py_getitem (PDict d) k = (case map_of d k of Some v \<Rightarrow> Inr v | None \<Rightarrow> Inl KeyError)"
| "py_getitem PNone k = Inl TypeError"
| "py_getitem (PBool b) k = Inl TypeError"
| "py_getitem (PInt i) k = Inl TypeError"
| "py_getitem (PFloat x) k = Inl TypeError"
| "py_getitem (PStr s) k = Inl TypeError"
| "py_getitem (PList xs) k = Inl TypeError"

text \<open>\<^verbatim>\<open>d.get(k, default)\<close> on a dict.\<close>

definition dict_get :: "(string \<times> 'v) list \<Rightarrow> string \<Rightarrow> 'v \<Rightarrow> 'v" where
  "dict_get d k dflt = (case map_of d k of Some v \<Rightarrow> v | None \<Rightarrow> dflt)"

text \<open>\<^verbatim>\<open>u'{}'.format(v)\<close>: a string is copied as it is.\<close>

definition format_value :: "'f python \<Rightarrow> 'f pyval \<Rightarrow> string" where
  "format_value py v = (case v of PStr s \<Rightarrow> s | _ \<Rightarrow> str_of py v)"

subsection \<open>The client's state\<close>

text \<open>A key of the dict of parameters: a string, or the builtin function \<^verbatim>\<open>format\<close>.\<close>

datatype pkey = SKey string | BuiltinFormat

record 'f request =
  url :: string
  params :: "(pkey \<times> 'f pyval) list"
  auth :: "(string \<times> string) option"
  timeout :: nat

record 'f response =
  ok :: bool
  json_body :: "'f pyval option"  \<comment> \<open>\<open>None\<close>: \<^verbatim>\<open>request.json()\<close> raises ValueError\<close>

type_synonym 'f session = "'f request \<Rightarrow> error + 'f response"

text \<open>
  A key of \<^verbatim>\<open>_reverse_geocode_hist\<close>: the code uses a string and a tuple of two floats,
  and a string is never equal to a tuple.
\<close>

datatype 'f hist_key = StrKey string | TupleKey 'f 'f

record 'f dts =
  street_num :: "'f pyval"
  street :: "'f pyval"
  address :: "'f pyval"
  address_eu :: "'f pyval"
  postal :: "'f pyval"
  neighborhood :: "'f pyval"
  sublocality :: "'f pyval"
  city :: "'f pyval"
  county :: "'f pyval"
  state :: "'f pyval"
  country :: "'f pyval"

text \<open>
  The fields of a \<^verbatim>\<open>GMaps\<close> object, and after them what the object does to the world:
  the clock, the requests handed to \<^verbatim>\<open>self._session.get\<close>, the calls of \<^verbatim>\<open>log.error\<close>.
\<close>

record 'f gmaps =
  key :: string
  window :: "real list"
  geocode_hist :: "string \<rightharpoonup> ('f \<times> 'f) option"
  reverse_geocode_hist :: "'f hist_key \<rightharpoonup> 'f dts"
  clock :: real
  sent :: "'f request list"
  logged :: "string list"

definition queries_per_second :: nat where
  "queries_per_second = 50"

text \<open>\<^verbatim>\<open>__init__\<close>, at time \<open>now\<close>.\<close>

definition init :: "string \<Rightarrow> real \<Rightarrow> 'f gmaps" where
  "init api_key now =
     \<lparr>key = api_key, window = [], geocode_hist = Map.empty,
      reverse_geocode_hist = Map.empty, clock = now, sent = [], logged = []\<rparr>"

subsection \<open>The dispatcher \<^verbatim>\<open>_make_request\<close>\<close>

text \<open>\<^verbatim>\<open>append\<close> on a \<^verbatim>\<open>deque\<close> with \<^verbatim>\<open>maxlen\<close>: one element too many drops the leftmost.\<close>

definition deque_append :: "nat \<Rightarrow> 'a list \<Rightarrow> 'a \<Rightarrow> 'a list" where
  "deque_append maxlen xs x =
     (let ys = xs @ [x] in if maxlen < length ys then tl ys else ys)"

text \<open>Lines 80 to 85.\<close>

definition rate_limit :: "'f gmaps \<Rightarrow> 'f gmaps" where
  "rate_limit s =
     (if length (window s) = queries_per_second then
        (let elapsed_time = clock s - hd (window s) in
         if elapsed_time < 1 then s\<lparr>clock := clock s + (1 - elapsed_time)\<rparr> else s)
      else s)"

text \<open>Lines 88 to 93: \<open>None\<close> is the \<^verbatim>\<open>False\<close> of \<^verbatim>\<open>userpassword\<close>.\<close>

definition make_url :: "string \<Rightarrow> string \<Rightarrow> error + (string option \<times> string)" where
  "make_url k service =
     (if CHR ''@'' \<in> set k then
        (case index (py_split CHR ''@'' k) 0 of
           Inl e \<Rightarrow> Inl e
         | Inr userpassword \<Rightarrow>
             (case index (py_split CHR ''@'' k) 1 of
                Inl e \<Rightarrow> Inl e
              | Inr base \<Rightarrow> Inr (Some userpassword, base @ ''/'' @ service)))
      else
        (case index (py_split CHR ''@'' k) 0 of
           Inl e \<Rightarrow> Inl e
         | Inr base \<Rightarrow> Inr (None, base @ ''/'' @ service)))"

text \<open>
  Lines 98 to 103: the \<^verbatim>\<open>auth\<close> argument. An empty \<^verbatim>\<open>userpassword\<close> is false; one with no
  colon has no second part.
\<close>

definition make_auth :: "string option \<Rightarrow> error + (string \<times> string) option" where
  "make_auth userpassword =
     (case userpassword of
        None \<Rightarrow> Inr None
      | Some up \<Rightarrow>
          if up = [] then Inr None
          else
            (case index (py_split CHR '':'' up) 0 of
               Inl e \<Rightarrow> Inl e
             | Inr u \<Rightarrow>
                 (case index (py_split CHR '':'' up) 1 of
                    Inl e \<Rightarrow> Inl e
                  | Inr p \<Rightarrow> Inr (Some (u, p)))))"

text \<open>Lines 114 and 115.\<close>

definition first_of_list :: "'f pyval \<Rightarrow> error + 'f pyval" where
  "first_of_list body = (case body of PList xs \<Rightarrow> index xs 0 | _ \<Rightarrow> Inr body)"

text \<open>Lines 117 to 123.\<close>

definition check_error :: "'f pyval \<Rightarrow> error + 'f pyval" where
  "check_error body =
     (case py_in ''error'' body of
        Inl e \<Rightarrow> Inl e
      | Inr has_error \<Rightarrow>
          if \<not> has_error then Inr body
          else
            (case py_getitem body ''error'' of
               Inl e \<Rightarrow> Inl e
             | Inr v \<Rightarrow>
                 if v = PStr ''Unable to geocode'' then Inr (PDict []) else Inl ValueError))"

text \<open>
  Lines 104 to 123. A response that is not \<^verbatim>\<open>ok\<close> has its body parsed for the debug log
  and then \<^verbatim>\<open>raise_for_status()\<close> raises HTTPError.
\<close>

definition read_body :: "'f response \<Rightarrow> error + 'f pyval" where
  "read_body r =
     (if \<not> ok r then
        (case json_body r of None \<Rightarrow> Inl ValueError | Some b \<Rightarrow> Inl HTTPError)
      else
        (case json_body r of
           None \<Rightarrow> Inl ValueError
         | Some body \<Rightarrow>
             (case first_of_list body of Inl e \<Rightarrow> Inl e | Inr b \<Rightarrow> check_error b)))"

definition make_request ::
  "'f session \<Rightarrow> string \<Rightarrow> (pkey \<times> 'f pyval) list \<Rightarrow> 'f gmaps \<Rightarrow> (error + 'f pyval) \<times> 'f gmaps"
where
  "make_request session service ps s0 =
     (let s1 = rate_limit s0 in
      case make_url (key s1) service of
        Inl e \<Rightarrow> (Inl e, s1)
      | Inr (userpassword, u) \<Rightarrow>
          (let s2 = s1\<lparr>window := deque_append queries_per_second (window s1) (clock s1)\<rparr> in
           case make_auth userpassword of
             Inl e \<Rightarrow> (Inl e, s2)
           | Inr a \<Rightarrow>
               (let req = \<lparr>url = u, params = ps, auth = a, timeout = 3\<rparr>;
                    s3 = s2\<lparr>sent := sent s2 @ [req]\<rparr>
                in case session req of
                     Inl e \<Rightarrow> (Inl e, s3)
                   | Inr r \<Rightarrow> (read_body r, s3))))"

text \<open>
  The body that line 112 parses in a dispatch from the state \<open>s\<close>, when the dispatch gets
  that far: the request is built, \<^verbatim>\<open>get\<close> returns and the response is \<^verbatim>\<open>ok\<close>.
\<close>

definition parsed_body ::
  "'f session \<Rightarrow> string \<Rightarrow> (pkey \<times> 'f pyval) list \<Rightarrow> 'f gmaps \<Rightarrow> 'f pyval option"
where
  "parsed_body session service ps s =
     (case make_url (key s) service of
        Inl e \<Rightarrow> None
      | Inr (userpassword, u) \<Rightarrow>
          (case make_auth userpassword of
             Inl e \<Rightarrow> None
           | Inr a \<Rightarrow>
               (case session \<lparr>url = u, params = ps, auth = a, timeout = 3\<rparr> of
                  Inl e \<Rightarrow> None
                | Inr r \<Rightarrow> if ok r then json_body r else None)))"

subsection \<open>The \<^verbatim>\<open>except\<close> clauses\<close>

text \<open>
  Both operations end their \<^verbatim>\<open>try\<close> block with the same four clauses, taken in the
  source's order; each calls \<^verbatim>\<open>log.error\<close> and nothing else (the last one twice). They read
  \<^verbatim>\<open>e.message\<close>, which every exception of Python 2 has. \<open>handler op e\<close> is the list of
  messages logged, without the text of the exception.
\<close>

definition handler :: "string \<Rightarrow> error \<Rightarrow> string list" where
  "handler op e =
     (case e of
        HTTPError \<Rightarrow> [op @ '' failed with HTTPError'']
      | Timeout \<Rightarrow> [op @ '' failed with connection issues'']
      | UserWarning \<Rightarrow> [op @ '' failed because of exceeded quota.'']
      | _ \<Rightarrow> [op @ '' failed because unexpected error has occurred'', ''Stack trace''])"

subsection \<open>\<^verbatim>\<open>geocode\<close>\<close>

text \<open>
  The variable \<^verbatim>\<open>address\<close> of the source is \<open>addr0\<close> as the caller gives it and \<open>addr\<close>
  once line 130 has lower-cased it.
\<close>

text \<open>Line 137. The third key is written without quotes: it is the builtin \<^verbatim>\<open>format\<close>.\<close>

definition geocode_params :: "string \<Rightarrow> string \<Rightarrow> (pkey \<times> 'f pyval) list" where
  "geocode_params addr language =
     [(SKey ''q'', PStr addr), (SKey ''accept-language'', PStr language),
      (BuiltinFormat, PStr ''json'')]"

text \<open>Lines 140 and 141, from \<^verbatim>\<open>latlng = None\<close>; \<^verbatim>\<open>and\<close> evaluates its right side only when the left is true.\<close>

definition extract_latlng :: "'f python \<Rightarrow> 'f pyval \<Rightarrow> error + ('f \<times> 'f) option" where
  "extract_latlng py response =
     (case py_in ''lat'' response of
        Inl e \<Rightarrow> Inl e
      | Inr has_lat \<Rightarrow>
          (case (if has_lat then py_in ''lng'' response else Inr False) of
             Inl e \<Rightarrow> Inl e
           | Inr has_both \<Rightarrow>
               if \<not> has_both then Inr None
               else
                 (case py_getitem response ''lat'' of
                    Inl e \<Rightarrow> Inl e
                  | Inr v_lat \<Rightarrow>
                      (case float_of py v_lat of
                         Inl e \<Rightarrow> Inl e
                       | Inr lat \<Rightarrow>
                           (case py_getitem response ''lng'' of
                              Inl e \<Rightarrow> Inl e
                            | Inr v_lng \<Rightarrow>
                                (case float_of py v_lng of
                                   Inl e \<Rightarrow> Inl e
                                 | Inr lng \<Rightarrow> Inr (Some (lat, lng))))))))"

text \<open>Lines 137 to 141: the \<^verbatim>\<open>try\<close> block up to the memoization, for the lower-cased address.\<close>

definition geocode_try ::
  "'f python \<Rightarrow> 'f session \<Rightarrow> string \<Rightarrow> string \<Rightarrow> 'f gmaps \<Rightarrow> (error + ('f \<times> 'f) option) \<times> 'f gmaps"
where
  "geocode_try py session addr language s =
     (case make_request session ''search'' (geocode_params addr language) s of
        (Inl e, s1) \<Rightarrow> (Inl e, s1)
      | (Inr response, s1) \<Rightarrow> (extract_latlng py response, s1))"

definition geocode ::
  "'f python \<Rightarrow> 'f session \<Rightarrow> string \<Rightarrow> string \<Rightarrow> 'f gmaps \<Rightarrow> ('f \<times> 'f) option \<times> 'f gmaps"
where
  "geocode py session addr0 language s =
     (let addr = lower addr0 in
      case geocode_hist s addr of
        Some latlng \<Rightarrow> (latlng, s)
      | None \<Rightarrow>
          (case geocode_try py session addr language s of
             (Inr latlng, s1) \<Rightarrow>
               (latlng, s1\<lparr>geocode_hist := (geocode_hist s1)(addr \<mapsto> latlng)\<rparr>)
           | (Inl e, s1) \<Rightarrow> (None, s1\<lparr>logged := logged s1 @ handler ''Geocode'' e\<rparr>)))"

subsection \<open>\<^verbatim>\<open>reverse_geocode\<close>\<close>

definition reverse_geocode_defaults :: "'f unknown \<Rightarrow> 'f dts" where
  "reverse_geocode_defaults unk =
     \<lparr>street_num = SMALL unk, street = REGULAR unk, address = REGULAR unk,
      address_eu = REGULAR unk, postal = REGULAR unk, neighborhood = REGULAR unk,
      sublocality = REGULAR unk, city = REGULAR unk, county = REGULAR unk,
      state = REGULAR unk, country = REGULAR unk\<rparr>"

text \<open>Line 187.\<close>

definition reverse_params :: "'f \<times> 'f \<Rightarrow> string \<Rightarrow> (pkey \<times> 'f pyval) list" where
  "reverse_params latlng language =
     [(SKey ''lat'', PFloat (fst latlng)), (SKey ''lon'', PFloat (snd latlng)),
      (SKey ''accept-language'', PStr language), (SKey ''format'', PStr ''json'')]"

text \<open>
  Lines 191 to 204. Only a dict has \<^verbatim>\<open>get\<close>: \<^verbatim>\<open>response.get\<close> and the first \<^verbatim>\<open>details.get\<close>
  raise AttributeError on anything else, before any field of \<^verbatim>\<open>dts\<close> is assigned.
\<close>

definition fill_dts :: "'f python \<Rightarrow> 'f unknown \<Rightarrow> 'f dts \<Rightarrow> 'f pyval \<Rightarrow> error + 'f dts" where
  "fill_dts py unk dts response =
     (case response of
        PDict r \<Rightarrow>
          (case dict_get r ''address'' (PList []) of
             PDict details \<Rightarrow>
               (let num = dict_get details ''house_number''
                           (dict_get details ''house_name'' (EMPTY unk));
                    str = dict_get details ''road''
                           (dict_get details ''street''
                             (dict_get details ''city_block''
                               (dict_get details ''retail'' (EMPTY unk))))
                in Inr (dts
                  \<lparr>street_num := num,
                   street := str,
                   address := PStr (format_value py num @ '' '' @ format_value py str),
                   address_eu := PStr (format_value py str @ '' '' @ format_value py num),
                   postal := dict_get details ''postcode'' (REGULAR unk),
                   country := dict_get details ''country''
                                (dict_get details ''country_code'' (REGULAR unk)),
                   state := dict_get details ''region''
                              (dict_get details ''state'' (REGULAR unk)),
                   city := dict_get details ''village''
                             (dict_get details ''town''
                               (dict_get details ''city''
                                 (dict_get details ''municipality'' (REGULAR unk)))),
                   county := dict_get details ''county''
                               (dict_get details ''state_district'' (REGULAR unk)),
                   neighborhood := dict_get details ''neighbourhood''
                                     (dict_get details ''allotments''
                                       (dict_get details ''quarter'' (REGULAR unk))),
                   sublocality := dict_get details ''city_district''
                                    (dict_get details ''district''
                                      (dict_get details ''borough''
                                        (dict_get details ''suburb''
                                          (dict_get details ''subdivision'' (REGULAR unk)))))\<rparr>))
           | _ \<Rightarrow> Inl AttributeError)
      | _ \<Rightarrow> Inl AttributeError)"

text \<open>Lines 190 to 204.\<close>

definition map_response :: "'f python \<Rightarrow> 'f unknown \<Rightarrow> 'f dts \<Rightarrow> 'f pyval \<Rightarrow> error + 'f dts" where
  "map_response py unk dts response =
     (case py_in ''address'' response of
        Inl e \<Rightarrow> Inl e
      | Inr has_address \<Rightarrow> if has_address then fill_dts py unk dts response else Inr dts)"

text \<open>Lines 187 to 204: the \<^verbatim>\<open>try\<close> block up to the memoization.\<close>

definition reverse_geocode_try ::
  "'f python \<Rightarrow> 'f unknown \<Rightarrow> 'f session \<Rightarrow> 'f dts \<Rightarrow> 'f \<times> 'f \<Rightarrow> string \<Rightarrow> 'f gmaps
     \<Rightarrow> (error + 'f dts) \<times> 'f gmaps"
where
  "reverse_geocode_try py unk session dts latlng language s =
     (case make_request session ''reverse'' (reverse_params latlng language) s of
        (Inl e, s1) \<Rightarrow> (Inl e, s1)
      | (Inr response, s1) \<Rightarrow> (map_response py unk dts response, s1))"

text \<open>
  Line 179 builds the string \<^verbatim>\<open>latlng_hist\<close> and line 181 looks it up; line 206 stores
  under the tuple \<^verbatim>\<open>latlng\<close>.
\<close>

definition reverse_geocode ::
  "'f python \<Rightarrow> 'f unknown \<Rightarrow> 'f session \<Rightarrow> 'f \<times> 'f \<Rightarrow> string \<Rightarrow> 'f gmaps \<Rightarrow> 'f dts \<times> 'f gmaps"
where
  "reverse_geocode py unk session latlng language s =
     (let latlng_hist = format_5f py (fst latlng) @ '','' @ format_5f py (snd latlng) in
      case reverse_geocode_hist s (StrKey latlng_hist) of
        Some d \<Rightarrow> (d, s)
      | None \<Rightarrow>
          (let dts = reverse_geocode_defaults unk in
           case reverse_geocode_try py unk session dts latlng language s of
             (Inr dts', s1) \<Rightarrow>
               (dts', s1\<lparr>reverse_geocode_hist :=
                          (reverse_geocode_hist s1)(TupleKey (fst latlng) (snd latlng) \<mapsto> dts')\<rparr>)
           | (Inl e, s1) \<Rightarrow> (dts, s1\<lparr>logged := logged s1 @ handler ''Reverse Geocode'' e\<rparr>)))"

subsection \<open>The field mapping as the specification words it\<close>

text \<open>
  An ordered list of candidate keys, the first one present wins, else the default.
\<close>

fun first_match :: "(string \<times> 'v) list \<Rightarrow> string list \<Rightarrow> 'v \<Rightarrow> 'v" where
  "first_match d [] dflt = dflt"
| "first_match d (k # ks) dflt =
     (case map_of d k of Some v \<Rightarrow> v | None \<Rightarrow> first_match d ks dflt)"

subsection \<open>Sample builtins, constants and servers\<close>

text \<open>
  The theorems hold for any builtins and any constants. The samples below are one choice
  of them, for the worked examples only, and each is narrower than the builtin it stands
  for, as said with it.

  Floats as the real numbers they stand for. \<open>fmt_5f\<close> writes five decimals, rounding the
  exact value half to even, as \<^verbatim>\<open>'{:.5f}'.format\<close> does with a finite float. The reals
  have no negative zero, infinity or nan; the examples format 52.5 and 13.4.
\<close>

definition digit_char :: "nat \<Rightarrow> char" where
  "digit_char n = ''0123456789'' ! (n mod 10)"

fun nat_digits :: "nat \<Rightarrow> string" where
  "nat_digits n =
     (if n < 10 then [digit_char n] else nat_digits (n div 10) @ [digit_char n])"

declare nat_digits.simps [simp del]

definition round_half_even :: "real \<Rightarrow> int" where
  "round_half_even x =
     (let f = \<lfloor>x\<rfloor>; d = x - of_int f
      in if d < 1 / 2 then f else if 1 / 2 < d then f + 1 else if even f then f else f + 1)"

definition fmt_5f :: "real \<Rightarrow> string" where
  "fmt_5f x =
     (let n = nat (round_half_even (\<bar>x\<bar> * 100000))
      in (if x < 0 then ''-'' else []) @ nat_digits (n div 100000) @ ''.'' @
         [digit_char (n div 10000), digit_char (n div 1000), digit_char (n div 100),
          digit_char (n div 10), digit_char n])"

text \<open>
  \<open>sample_float\<close> is \<^verbatim>\<open>float\<close> on the values of a JSON body, with the plain decimal
  literals (\<^verbatim>\<open>52.5\<close>, \<^verbatim>\<open>-0.25\<close>, \<^verbatim>\<open>13\<close>) as the only strings it converts: it leaves
  out the other forms that \<^verbatim>\<open>float\<close> accepts (an exponent, blanks around the number, a
  plus sign, a missing integer or fraction part) and takes an integer exactly, where
  \<^verbatim>\<open>float\<close> rounds a large one or raises OverflowError. The examples convert floats only.
\<close>

definition digit_val :: "char \<Rightarrow> nat option" where
  "digit_val c = map_of (zip ''0123456789'' [0, 1, 2, 3, 4, 5, 6, 7, 8, 9]) c"

fun digits_val :: "nat \<Rightarrow> string \<Rightarrow> nat option" where
  "digits_val a [] = Some a"
| "digits_val a (c # cs) =
     (case digit_val c of None \<Rightarrow> None | Some v \<Rightarrow> digits_val (10 * a + v) cs)"

definition parse_unsigned :: "string \<Rightarrow> real option" where
  "parse_unsigned s =
     (case py_split CHR ''.'' s of
        [i] \<Rightarrow> (if i = [] then None else map_option of_nat (digits_val 0 i))
      | [i, f] \<Rightarrow>
          (if i = [] \<or> f = [] then None
           else
             (case (digits_val 0 i, digits_val 0 f) of
                (Some a, Some b) \<Rightarrow> Some (of_nat a + of_nat b / 10 ^ length f)
              | _ \<Rightarrow> None))
      | _ \<Rightarrow> None)"

definition parse_decimal :: "string \<Rightarrow> real option" where
  "parse_decimal s =
     (case s of
        [] \<Rightarrow> None
      | c # cs \<Rightarrow>
          if c = CHR ''-'' then map_option uminus (parse_unsigned cs) else parse_unsigned s)"

definition sample_float :: "real pyval \<Rightarrow> error + real" where
  "sample_float v =
     (case v of
        PFloat x \<Rightarrow> Inr x
      | PInt i \<Rightarrow> Inr (of_int i)
      | PBool b \<Rightarrow> Inr (if b then 1 else 0)
      | PStr s \<Rightarrow> (case parse_decimal s of Some x \<Rightarrow> Inr x | None \<Rightarrow> Inl ValueError)
      | _ \<Rightarrow> Inl TypeError)"

text \<open>
  The examples format strings only, which \<open>format_value\<close> copies without asking
  \<open>str_of\<close>. \<open>sample_str\<close> gives the text of \<^verbatim>\<open>None\<close> and of the booleans and the empty
  text for numbers, lists and dicts, where \<^verbatim>\<open>u'{}'.format\<close> gives their text.
\<close>

definition sample_str :: "real pyval \<Rightarrow> string" where
  "sample_str v =
     (case v of
        PNone \<Rightarrow> ''None''
      | PBool b \<Rightarrow> (if b then ''True'' else ''False'')
      | PStr s \<Rightarrow> s
      | _ \<Rightarrow> [])"

definition sample_python :: "real python" where
  "sample_python = \<lparr>float_of = sample_float, format_5f = fmt_5f, str_of = sample_str\<rparr>"

definition sample_unknown :: "real unknown" where
  "sample_unknown = \<lparr>SMALL = PStr ''???'', REGULAR = PStr ''unknown'', EMPTY = PStr []\<rparr>"

text \<open>A server that answers every request with status 200 and the given JSON body.\<close>

definition serve :: "'f pyval \<Rightarrow> 'f session" where
  "serve body req = Inr \<lparr>ok = True, json_body = Some body\<rparr>"

text \<open>A session whose \<^verbatim>\<open>get\<close> raises.\<close>

definition raising :: "error \<Rightarrow> 'f session" where
  "raising e req = Inl e"

text \<open>A client just created, with no credentials in its key, and sample bodies.\<close>

definition sample_client :: "real gmaps" where
  "sample_client = init ''https://nominatim.example'' 100"

text \<open>The same client after fifty requests at time 99.5.\<close>

definition busy_client :: "real gmaps" where
  "busy_client = (init ''https://nominatim.example'' 100)\<lparr>window := replicate 50 (199 / 2)\<rparr>"

definition unable_body :: "real pyval" where
  "unable_body = PDict [(''error'', PStr ''Unable to geocode'')]"

definition quota_body :: "real pyval" where
  "quota_body = PDict [(''error'', PStr ''quota exceeded'')]"

definition berlin_body :: "real pyval" where
  "berlin_body =
     PList [PDict [(''lat'', PStr ''52.5''), (''lon'', PStr ''13.4''),
                   (''display_name'', PStr ''Berlin, Deutschland'')]]"

definition lng_body :: "real pyval" where
  "lng_body = PList [PDict [(''lat'', PFloat (105 / 2)), (''lng'', PFloat (67 / 5))]]"

definition main_st_body :: "real pyval" where
  "main_st_body =
     PDict [(''address'', PDict [(''road'', PStr ''Main St''), (''house_number'', PStr ''42'')])]"

definition sea_body :: "real pyval" where
  "sea_body = PDict [(''display_name'', PStr ''North Sea'')]"

definition odd_body :: "real pyval" where
  "odd_body = PDict [(''address'', PStr ''nowhere'')]"

section \<open>Facts about the dispatcher and the two operations\<close>

lemma py_split_not_Nil: "py_split sep s \<noteq> []"
  by (induction s) (auto split: list.splits)

lemma py_split_length: "sep \<in> set s \<Longrightarrow> 1 < length (py_split sep s)"
proof (induction s)
  case Nil
  then show ?case by simp
next
  case (Cons c cs)
  show ?case
  proof (cases "c = sep")
    case True
    then show ?thesis using py_split_not_Nil [of sep cs] by (cases "py_split sep cs") auto
  next
    case False
    with Cons have "1 < length (py_split sep cs)" by simp
    then show ?thesis using False by (cases "py_split sep cs") auto
  qed
qed

lemma make_url_returns: "\<exists>up u. make_url k service = Inr (up, u)"
proof (cases "CHR ''@'' \<in> set k")
  case True
  then show ?thesis
    using py_split_length [of "CHR ''@''" k] py_split_not_Nil [of "CHR ''@''" k]
    by (simp add: make_url_def index_def)
next
  case False
  then show ?thesis
    using py_split_not_Nil [of "CHR ''@''" k] by (simp add: make_url_def index_def)
qed

lemma key_rate_limit: "key (rate_limit s) = key s"
  by (simp add: rate_limit_def Let_def)

lemma make_request_geocode_hist:
  "geocode_hist (snd (make_request session service ps s)) = geocode_hist s"
  by (simp add: make_request_def rate_limit_def Let_def split: sum.splits prod.splits)

lemma make_request_reverse_geocode_hist:
  "reverse_geocode_hist (snd (make_request session service ps s)) = reverse_geocode_hist s"
  by (simp add: make_request_def rate_limit_def Let_def split: sum.splits prod.splits)

lemma make_request_logged: "logged (snd (make_request session service ps s)) = logged s"
  by (simp add: make_request_def rate_limit_def Let_def split: sum.splits prod.splits)

lemma make_request_clock: "clock (snd (make_request session service ps s)) = clock (rate_limit s)"
  by (simp add: make_request_def Let_def split: sum.splits prod.splits)

lemma make_request_window:
  "window (snd (make_request session service ps s)) =
     deque_append queries_per_second (window (rate_limit s)) (clock (rate_limit s))"
  using make_url_returns [of "key (rate_limit s)" service]
  by (auto simp add: make_request_def Let_def split: sum.splits prod.splits)

lemma make_request_parsed:
  assumes "parsed_body session service ps s = Some b"
  shows "fst (make_request session service ps s) =
           (case first_of_list b of Inl e \<Rightarrow> Inl e | Inr b' \<Rightarrow> check_error b')"
  using assms
  by (auto simp add: make_request_def parsed_body_def read_body_def key_rate_limit Let_def
      split: sum.splits prod.splits if_splits)


lemma geocode_try_fst:
  "fst (geocode_try py session a l s) =
     (case fst (make_request session ''search'' (geocode_params a l) s) of
        Inl e \<Rightarrow> Inl e
      | Inr response \<Rightarrow> extract_latlng py response)"
  by (simp add: geocode_try_def split: prod.splits sum.splits)

lemma geocode_try_snd:
  "snd (geocode_try py session a l s) = snd (make_request session ''search'' (geocode_params a l) s)"
  by (simp add: geocode_try_def split: prod.splits sum.splits)

lemma geocode_hit:
  "geocode_hist s (lower a) = Some v \<Longrightarrow> geocode py session a l s = (v, s)"
  by (simp add: geocode_def)

lemma geocode_miss:
  assumes "geocode_hist s (lower a) = None"
  shows "geocode py session a l s =
           (case fst (geocode_try py session (lower a) l s) of
              Inr v \<Rightarrow>
                (v, (snd (geocode_try py session (lower a) l s))
                      \<lparr>geocode_hist := (geocode_hist s)(lower a \<mapsto> v)\<rparr>)
            | Inl e \<Rightarrow>
                (None, (snd (geocode_try py session (lower a) l s))
                         \<lparr>logged := logged s @ handler ''Geocode'' e\<rparr>))"
proof -
  obtain r s1 where t: "geocode_try py session (lower a) l s = (r, s1)"
    by (cases "geocode_try py session (lower a) l s")
  have "s1 = snd (make_request session ''search'' (geocode_params (lower a) l) s)"
    using t geocode_try_snd [of py session "lower a" l s] by simp
  then have "geocode_hist s1 = geocode_hist s" and "logged s1 = logged s"
    by (simp_all add: make_request_geocode_hist make_request_logged)
  then show ?thesis
    using assms t by (simp add: geocode_def split: sum.splits)
qed

lemma reverse_geocode_try_fst:
  "fst (reverse_geocode_try py unk session d latlng l s) =
     (case fst (make_request session ''reverse'' (reverse_params latlng l) s) of
        Inl e \<Rightarrow> Inl e
      | Inr response \<Rightarrow> map_response py unk d response)"
  by (simp add: reverse_geocode_try_def split: prod.splits sum.splits)

lemma reverse_geocode_try_snd:
  "snd (reverse_geocode_try py unk session d latlng l s) =
     snd (make_request session ''reverse'' (reverse_params latlng l) s)"
  by (simp add: reverse_geocode_try_def split: prod.splits sum.splits)

lemma reverse_geocode_hit:
  "reverse_geocode_hist s (StrKey (format_5f py (fst latlng) @ '','' @ format_5f py (snd latlng))) = Some d
   \<Longrightarrow> reverse_geocode py unk session latlng l s = (d, s)"
  by (simp add: reverse_geocode_def)

lemma reverse_geocode_miss:
  assumes "reverse_geocode_hist s
             (StrKey (format_5f py (fst latlng) @ '','' @ format_5f py (snd latlng))) = None"
  shows "reverse_geocode py unk session latlng l s =
           (case fst (reverse_geocode_try py unk session (reverse_geocode_defaults unk) latlng l s) of
              Inr d \<Rightarrow>
                (d, (snd (reverse_geocode_try py unk session (reverse_geocode_defaults unk) latlng l s))
                      \<lparr>reverse_geocode_hist :=
                         (reverse_geocode_hist s)(TupleKey (fst latlng) (snd latlng) \<mapsto> d)\<rparr>)
            | Inl e \<Rightarrow>
                (reverse_geocode_defaults unk,
                 (snd (reverse_geocode_try py unk session (reverse_geocode_defaults unk) latlng l s))
                   \<lparr>logged := logged s @ handler ''Reverse Geocode'' e\<rparr>))"
proof -
  let ?t = "reverse_geocode_try py unk session (reverse_geocode_defaults unk) latlng l s"
  obtain r s1 where t: "?t = (r, s1)"
    by (cases ?t)
  have "s1 = snd (make_request session ''reverse'' (reverse_params latlng l) s)"
    using t reverse_geocode_try_snd [of py unk session "reverse_geocode_defaults unk" latlng l s]
    by simp
  then have "reverse_geocode_hist s1 = reverse_geocode_hist s" and "logged s1 = logged s"
    by (simp_all add: make_request_reverse_geocode_hist make_request_logged)
  then show ?thesis
    using assms t by (simp add: reverse_geocode_def Let_def split: sum.splits)
qed

lemma geocode_miss_sent:
  assumes "geocode_hist s (lower a) = None"
  shows "sent (snd (geocode py session a l s)) =
           sent (snd (make_request session ''search'' (geocode_params (lower a) l) s))"
  by (simp add: geocode_miss [OF assms] geocode_try_snd split: sum.splits)

lemma reverse_geocode_string_keys:
  "reverse_geocode_hist (snd (reverse_geocode py unk session latlng language s)) (StrKey k) =
     reverse_geocode_hist s (StrKey k)"
proof (cases "reverse_geocode_hist s
                (StrKey (format_5f py (fst latlng) @ '','' @ format_5f py (snd latlng)))")
  case None
  then show ?thesis
    by (simp add: reverse_geocode_miss reverse_geocode_try_snd make_request_reverse_geocode_hist
        split: sum.splits)
next
  case (Some d)
  then show ?thesis
    by (simp add: reverse_geocode_hit)
qed

lemma reverse_geocode_mapped:
  assumes "reverse_geocode_hist s
             (StrKey (format_5f py (fst latlng) @ '','' @ format_5f py (snd latlng))) = None"
    and "fst (make_request session ''reverse'' (reverse_params latlng language) s) = Inr response"
    and "map_response py unk (reverse_geocode_defaults unk) response = Inr d"
  shows "reverse_geocode py unk session latlng language s =
           (d, (snd (make_request session ''reverse'' (reverse_params latlng language) s))
                 \<lparr>reverse_geocode_hist :=
                    (reverse_geocode_hist s)(TupleKey (fst latlng) (snd latlng) \<mapsto> d)\<rparr>)"
  using assms(2,3)
  by (simp add: reverse_geocode_miss [OF assms(1)] reverse_geocode_try_fst reverse_geocode_try_snd)

lemma check_error_unable:
  "check_error (PDict [(''error'', PStr ''Unable to geocode'')]) = Inr (PDict [])"
  by (simp add: check_error_def)

lemma check_error_other:
  "map_of d ''error'' = Some v \<Longrightarrow> v \<noteq> PStr ''Unable to geocode''
   \<Longrightarrow> check_error (PDict d) = Inl ValueError"
  by (simp add: check_error_def)

lemma extract_latlng_no_lng:
  "map_of d ''lng'' = None \<Longrightarrow> extract_latlng py (PDict d) = Inr None"
  by (simp add: extract_latlng_def)

lemma first_match_dict_get:
  "first_match d (k # ks) dflt = dict_get d k (first_match d ks dflt)"
  by (simp add: dict_get_def)

subsection \<open>The sample client\<close>

lemma sample_client_fields:
  "key sample_client = ''https://nominatim.example''"
  "window sample_client = []"
  "geocode_hist sample_client = Map.empty"
  "reverse_geocode_hist sample_client = Map.empty"
  "clock sample_client = 100"
  "sent sample_client = []"
  "logged sample_client = []"
  by (simp_all add: sample_client_def init_def)

lemma make_url_sample:
  "make_url ''https://nominatim.example'' service = Inr (None, ''https://nominatim.example/'' @ service)"
  by (simp add: make_url_def index_def)

lemma make_request_sample:
  assumes "key s = ''https://nominatim.example''" and "length (window s) < 50"
  shows "make_request session service ps s =
           (case session \<lparr>url = ''https://nominatim.example/'' @ service, params = ps,
                          auth = None, timeout = 3\<rparr> of
              Inl e \<Rightarrow> Inl e
            | Inr r \<Rightarrow> read_body r,
            s\<lparr>window := window s @ [clock s],
              sent := sent s @ [\<lparr>url = ''https://nominatim.example/'' @ service, params = ps,
                                 auth = None, timeout = 3\<rparr>]\<rparr>)"
  using assms
  by (simp add: make_request_def rate_limit_def make_url_sample make_auth_def deque_append_def
      queries_per_second_def Let_def split: sum.splits)

lemma lower_berlin: "lower ''BERLIN'' = ''berlin''" "lower ''Berlin'' = ''berlin''"
  by (simp_all add: lower_def lower_char_def)

lemma parsed_body_sample:
  assumes "key s = ''https://nominatim.example''"
  shows "parsed_body session service ps s =
           (case session \<lparr>url = ''https://nominatim.example/'' @ service, params = ps,
                          auth = None, timeout = 3\<rparr> of
              Inl e \<Rightarrow> None
            | Inr r \<Rightarrow> if ok r then json_body r else None)"
  using assms by (simp add: parsed_body_def make_url_sample make_auth_def)

lemma lower_atlantis: "lower ''Atlantis'' = ''atlantis''"
  by (simp add: lower_def lower_char_def)

lemma fmt_5f_samples: "fmt_5f (105 / 2) = ''52.50000''" "fmt_5f (67 / 5) = ''13.40000''"
  by (simp_all add: fmt_5f_def round_half_even_def nat_digits.simps [of 52]
      nat_digits.simps [of 13] nat_digits.simps [of 5] nat_digits.simps [of "Suc 0"] digit_char_def)

section \<open>The properties of the specification\<close>

text \<open>
  C1. The reverse-geocode cache is read under one key and written under another. Line 179
  formats the coordinate to the string \<^verbatim>\<open>latlng_hist\<close> and line 181 looks that string up,
  but line 206 stores the result under the tuple \<^verbatim>\<open>latlng\<close>. For the coordinate
  (52.5, 13.4) on a new client, with a server that answers: the key looked up is
  \<^verbatim>\<open>52.50000,13.40000\<close>; after the call the cache has nothing under that string and has
  the result under the tuple; the call sent one request, and the same call made again
  sends a second one.
\<close>

theorem reverse_geocode_stores_under_tuple:
  "format_5f sample_python (105 / 2) @ '','' @ format_5f sample_python (67 / 5) =
     ''52.50000,13.40000''
   \<and> reverse_geocode_hist
         (snd (reverse_geocode sample_python sample_unknown (serve main_st_body) (105 / 2, 67 / 5)
                 ''en'' sample_client))
         (StrKey ''52.50000,13.40000'') = None
   \<and> reverse_geocode_hist
         (snd (reverse_geocode sample_python sample_unknown (serve main_st_body) (105 / 2, 67 / 5)
                 ''en'' sample_client))
         (TupleKey (105 / 2) (67 / 5)) =
       Some (fst (reverse_geocode sample_python sample_unknown (serve main_st_body)
                    (105 / 2, 67 / 5) ''en'' sample_client))
   \<and> length (sent (snd (reverse_geocode sample_python sample_unknown (serve main_st_body)
                          (105 / 2, 67 / 5) ''en'' sample_client))) = 1
   \<and> length (sent (snd (reverse_geocode sample_python sample_unknown (serve main_st_body)
                          (105 / 2, 67 / 5) ''en''
                          (snd (reverse_geocode sample_python sample_unknown (serve main_st_body)
                                  (105 / 2, 67 / 5) ''en'' sample_client))))) = 2"
proof -
  let ?first = "reverse_geocode sample_python sample_unknown (serve main_st_body) (105 / 2, 67 / 5)
                  ''en'' sample_client"
  have k: "format_5f sample_python (105 / 2) @ '','' @ format_5f sample_python (67 / 5) =
             ''52.50000,13.40000''"
    by (simp add: sample_python_def fmt_5f_samples)
  have m0: "reverse_geocode_hist sample_client
              (StrKey (format_5f sample_python (fst (105 / 2, 67 / 5 :: real)) @ '','' @
                       format_5f sample_python (snd (105 / 2 :: real, 67 / 5)))) = None"
    by (simp add: sample_client_fields)
  have r: "fst (reverse_geocode_try sample_python sample_unknown (serve main_st_body)
                  (reverse_geocode_defaults sample_unknown) (105 / 2, 67 / 5) ''en'' s) \<noteq> Inl e"
    if "key s = ''https://nominatim.example''" and "length (window s) < 50" for s e
    using that
    by (simp add: reverse_geocode_try_fst make_request_sample serve_def read_body_def
        main_st_body_def first_of_list_def check_error_def map_response_def fill_dts_def
        dict_get_def Let_def)
  have s1: "snd ?first =
              (snd (make_request (serve main_st_body) ''reverse''
                      (reverse_params (105 / 2, 67 / 5) ''en'') sample_client))
                \<lparr>reverse_geocode_hist := [TupleKey (105 / 2) (67 / 5) \<mapsto> fst ?first]\<rparr>"
    using r [of sample_client]
    by (simp add: reverse_geocode_miss [OF m0] reverse_geocode_try_snd sample_client_fields
        split: sum.splits)
  have a: "reverse_geocode_hist (snd ?first) (StrKey ''52.50000,13.40000'') = None"
    by (simp add: reverse_geocode_string_keys sample_client_fields)
  have b: "reverse_geocode_hist (snd ?first) (TupleKey (105 / 2) (67 / 5)) = Some (fst ?first)"
    by (simp add: s1)
  have c: "sent (snd ?first) =
             [\<lparr>url = ''https://nominatim.example/reverse'',
               params = reverse_params (105 / 2, 67 / 5) ''en'', auth = None, timeout = 3\<rparr>]"
    by (simp add: s1 make_request_sample sample_client_fields)
  have ks: "key (snd ?first) = ''https://nominatim.example''" "window (snd ?first) = [100]"
    by (simp_all add: s1 make_request_sample sample_client_fields)
  have m1: "reverse_geocode_hist (snd ?first)
              (StrKey (format_5f sample_python (fst (105 / 2, 67 / 5 :: real)) @ '','' @
                       format_5f sample_python (snd (105 / 2 :: real, 67 / 5)))) = None"
    using a k by simp
  have d: "length (sent (snd (reverse_geocode sample_python sample_unknown (serve main_st_body)
                               (105 / 2, 67 / 5) ''en'' (snd ?first)))) = 2"
    using r [of "snd ?first"] ks c
    by (simp add: reverse_geocode_miss [OF m1] reverse_geocode_try_snd make_request_sample
        split: sum.splits)
  show ?thesis
    using k a b c d by simp
qed

text \<open>
  C2. The parameters of the request that \<^verbatim>\<open>geocode\<close> sends. For the address
  \<^verbatim>\<open>Berlin\<close> on a new client, the one request sent to \<^verbatim>\<open>search\<close> carries \<^verbatim>\<open>q\<close> (the
  lower-cased address) and \<^verbatim>\<open>accept-language\<close> under string keys, and \<^verbatim>\<open>json\<close> under
  the builtin function \<^verbatim>\<open>format\<close>: line 137 leaves the quotes out, so that no parameter
  has the string \<^verbatim>\<open>format\<close> as its key. Line 187 of \<^verbatim>\<open>reverse_geocode\<close> has the quotes.
\<close>

theorem geocode_sends_builtin_format_key:
  "sent (snd (geocode sample_python (serve berlin_body) ''Berlin'' ''en'' sample_client)) =
     [\<lparr>url = ''https://nominatim.example/search'',
       params = [(SKey ''q'', PStr ''berlin''), (SKey ''accept-language'', PStr ''en''),
                 (BuiltinFormat, PStr ''json'')],
       auth = None, timeout = 3\<rparr>]
   \<and> map_of (params (hd (sent (snd (geocode sample_python (serve berlin_body) ''Berlin'' ''en''
                                     sample_client))))) (SKey ''format'') = None"
proof -
  have "geocode_hist sample_client (lower ''Berlin'') = None"
    by (simp add: sample_client_fields)
  then have "sent (snd (geocode sample_python (serve berlin_body) ''Berlin'' ''en'' sample_client)) =
               sent (snd (make_request (serve berlin_body) ''search''
                            (geocode_params (lower ''Berlin'') ''en'') sample_client))"
    by (rule geocode_miss_sent)
  then show ?thesis
    by (simp add: make_request_sample sample_client_fields geocode_params_def lower_berlin)
qed

text \<open>
  C3, as amended. When the response that the dispatcher returns has no \<^verbatim>\<open>address\<close>,
  \<^verbatim>\<open>reverse_geocode\<close> returns the defaults, every field at its sentinel (\<^verbatim>\<open>SMALL\<close> for the
  street number, \<^verbatim>\<open>REGULAR\<close> for the others), and line 206 runs for them as for any other
  result: the mapping after the call is the mapping before it with the result stored
  under the tuple \<^verbatim>\<open>latlng\<close>.
\<close>

theorem reverse_geocode_no_address:
  assumes "reverse_geocode_hist s
             (StrKey (format_5f py (fst latlng) @ '','' @ format_5f py (snd latlng))) = None"
    and "fst (make_request session ''reverse'' (reverse_params latlng language) s) = Inr response"
    and "py_in ''address'' response = Inr False"
  shows "fst (reverse_geocode py unk session latlng language s) =
           \<lparr>street_num = SMALL unk, street = REGULAR unk, address = REGULAR unk,
            address_eu = REGULAR unk, postal = REGULAR unk, neighborhood = REGULAR unk,
            sublocality = REGULAR unk, city = REGULAR unk, county = REGULAR unk,
            state = REGULAR unk, country = REGULAR unk\<rparr>
         \<and> reverse_geocode_hist (snd (reverse_geocode py unk session latlng language s)) =
             (reverse_geocode_hist s)
               (TupleKey (fst latlng) (snd latlng) \<mapsto>
                  fst (reverse_geocode py unk session latlng language s))"
proof -
  have "map_response py unk (reverse_geocode_defaults unk) response =
          Inr (reverse_geocode_defaults unk)"
    using assms(3) by (simp add: map_response_def)
  then have "reverse_geocode py unk session latlng language s =
               (reverse_geocode_defaults unk,
                (snd (make_request session ''reverse'' (reverse_params latlng language) s))
                  \<lparr>reverse_geocode_hist :=
                     (reverse_geocode_hist s)
                       (TupleKey (fst latlng) (snd latlng) \<mapsto> reverse_geocode_defaults unk)\<rparr>)"
    using assms(1,2) by (rule reverse_geocode_mapped [rotated 2])
  then show ?thesis
    by (simp add: reverse_geocode_defaults_def)
qed

theorem reverse_geocode_no_address_witness:
  "reverse_geocode_hist sample_client
     (StrKey (format_5f sample_python (fst (105 / 2, 67 / 5 :: real)) @ '','' @
              format_5f sample_python (snd (105 / 2 :: real, 67 / 5)))) = None
   \<and> fst (make_request (serve sea_body) ''reverse'' (reverse_params (105 / 2, 67 / 5) ''en'')
            sample_client) = Inr sea_body
   \<and> py_in ''address'' sea_body = Inr False
   \<and> fst (reverse_geocode sample_python sample_unknown (serve sea_body) (105 / 2, 67 / 5) ''en''
            sample_client) =
       \<lparr>street_num = PStr ''???'', street = PStr ''unknown'', address = PStr ''unknown'',
        address_eu = PStr ''unknown'', postal = PStr ''unknown'', neighborhood = PStr ''unknown'',
        sublocality = PStr ''unknown'', city = PStr ''unknown'', county = PStr ''unknown'',
        state = PStr ''unknown'', country = PStr ''unknown''\<rparr>
   \<and> reverse_geocode_hist
         (snd (reverse_geocode sample_python sample_unknown (serve sea_body) (105 / 2, 67 / 5) ''en''
                 sample_client)) =
       [TupleKey (105 / 2) (67 / 5) \<mapsto>
          \<lparr>street_num = PStr ''???'', street = PStr ''unknown'', address = PStr ''unknown'',
           address_eu = PStr ''unknown'', postal = PStr ''unknown'',
           neighborhood = PStr ''unknown'', sublocality = PStr ''unknown'',
           city = PStr ''unknown'', county = PStr ''unknown'', state = PStr ''unknown'',
           country = PStr ''unknown''\<rparr>]"
proof -
  have h1: "reverse_geocode_hist sample_client
              (StrKey (format_5f sample_python (fst (105 / 2, 67 / 5 :: real)) @ '','' @
                       format_5f sample_python (snd (105 / 2 :: real, 67 / 5)))) = None"
    by (simp add: sample_client_fields)
  have h2: "fst (make_request (serve sea_body) ''reverse'' (reverse_params (105 / 2, 67 / 5) ''en'')
              sample_client) = Inr sea_body"
    by (simp add: make_request_sample sample_client_fields serve_def read_body_def sea_body_def
        first_of_list_def check_error_def)
  have h3: "py_in ''address'' sea_body = Inr False"
    by (simp add: sea_body_def)
  show ?thesis
    using h1 h2 h3 reverse_geocode_no_address [OF h1 h2 h3, of sample_unknown]
    by (simp add: sample_unknown_def sample_client_fields)
qed

text \<open>
  C3 as the specification states it, that no entry is added, fails: a body without
  \<^verbatim>\<open>address\<close> leaves the defaults in a mapping that was empty.
\<close>

theorem reverse_geocode_no_address_counterexample:
  "py_in ''address'' sea_body = Inr False
   \<and> fst (make_request (serve sea_body) ''reverse'' (reverse_params (105 / 2, 67 / 5) ''en'')
            sample_client) = Inr sea_body
   \<and> reverse_geocode_hist sample_client (TupleKey (105 / 2) (67 / 5)) = None
   \<and> reverse_geocode_hist
         (snd (reverse_geocode sample_python sample_unknown (serve sea_body) (105 / 2, 67 / 5) ''en''
                 sample_client))
         (TupleKey (105 / 2) (67 / 5)) =
       Some (reverse_geocode_defaults sample_unknown)
   \<and> reverse_geocode_hist
         (snd (reverse_geocode sample_python sample_unknown (serve sea_body) (105 / 2, 67 / 5) ''en''
                 sample_client)) \<noteq>
       reverse_geocode_hist sample_client"
proof -
  let ?s1 = "snd (reverse_geocode sample_python sample_unknown (serve sea_body) (105 / 2, 67 / 5)
                    ''en'' sample_client)"
  have h1: "reverse_geocode_hist sample_client
              (StrKey (format_5f sample_python (fst (105 / 2, 67 / 5 :: real)) @ '','' @
                       format_5f sample_python (snd (105 / 2 :: real, 67 / 5)))) = None"
    by (simp add: sample_client_fields)
  have h2: "fst (make_request (serve sea_body) ''reverse'' (reverse_params (105 / 2, 67 / 5) ''en'')
              sample_client) = Inr sea_body"
    by (simp add: make_request_sample sample_client_fields serve_def read_body_def sea_body_def
        first_of_list_def check_error_def)
  have h3: "py_in ''address'' sea_body = Inr False"
    by (simp add: sea_body_def)
  have h4: "map_response sample_python sample_unknown (reverse_geocode_defaults sample_unknown)
              sea_body = Inr (reverse_geocode_defaults sample_unknown)"
    using h3 by (simp add: map_response_def)
  have e: "reverse_geocode_hist ?s1 (TupleKey (105 / 2) (67 / 5)) =
             Some (reverse_geocode_defaults sample_unknown)"
    by (simp add: reverse_geocode_mapped [OF h1 h2 h4])
  have n: "reverse_geocode_hist sample_client (TupleKey (105 / 2) (67 / 5)) = None"
    by (simp add: sample_client_fields)
  from e n have "reverse_geocode_hist ?s1 \<noteq> reverse_geocode_hist sample_client"
    by (metis option.distinct(1))
  with h2 h3 e n show ?thesis by simp
qed

text \<open>
  C4. Memoization of \<^verbatim>\<open>geocode\<close>. Take a first call that completed: its address was
  already in the cache, or its \<^verbatim>\<open>try\<close> block ran through to the memoization of line 144.
  The first call returns the value that was in the cache or, on a miss, the value that
  the \<^verbatim>\<open>try\<close> block computed from the dispatcher's response, and after it the cache
  holds that value under the lower-cased address. Then a second call, for any address
  with the same lower-cased form, with any language and any behaviour of the server,
  returns the value of the first call and leaves the state as the first call left it: no
  request is sent, the window and the clock are untouched. The value may be \<^verbatim>\<open>None\<close>.
\<close>

theorem geocode_second_call_cached:
  assumes "lower addr' = lower addr"
    and "geocode_hist s (lower addr) \<noteq> None
         \<or> (\<exists>v. fst (geocode_try py session (lower addr) language s) = Inr v)"
  shows "fst (geocode py session addr language s) =
           (case geocode_hist s (lower addr) of
              Some v \<Rightarrow> v
            | None \<Rightarrow>
                (case fst (geocode_try py session (lower addr) language s) of
                   Inr v \<Rightarrow> v
                 | Inl e \<Rightarrow> None))
         \<and> geocode_hist (snd (geocode py session addr language s)) (lower addr) =
             Some (fst (geocode py session addr language s))
         \<and> fst (geocode py' session' addr' language' (snd (geocode py session addr language s))) =
             fst (geocode py session addr language s)
         \<and> snd (geocode py' session' addr' language' (snd (geocode py session addr language s))) =
             snd (geocode py session addr language s)"
proof (cases "geocode_hist s (lower addr)")
  case (Some v)
  then have "geocode py session addr language s = (v, s)"
    by (rule geocode_hit)
  moreover have "geocode py' session' addr' language' s = (v, s)"
    using Some assms(1) by (simp add: geocode_hit)
  ultimately show ?thesis using Some by simp
next
  case None
  with assms(2) obtain v where v: "fst (geocode_try py session (lower addr) language s) = Inr v"
    by auto
  let ?s1 = "(snd (geocode_try py session (lower addr) language s))
               \<lparr>geocode_hist := (geocode_hist s)(lower addr \<mapsto> v)\<rparr>"
  have first: "geocode py session addr language s = (v, ?s1)"
    using None v by (simp add: geocode_miss)
  have "geocode_hist ?s1 (lower addr') = Some v"
    using assms(1) by simp
  then have "geocode py' session' addr' language' ?s1 = (v, ?s1)"
    by (rule geocode_hit)
  with first None v show ?thesis by simp
qed

theorem geocode_second_call_cached_witness:
  "lower ''BERLIN'' = lower ''Berlin''
   \<and> fst (geocode_try sample_python (serve lng_body) (lower ''Berlin'') ''en'' sample_client) =
       Inr (Some (105 / 2, 67 / 5))
   \<and> fst (geocode sample_python (serve lng_body) ''Berlin'' ''en'' sample_client) =
       Some (105 / 2, 67 / 5)
   \<and> geocode_hist (snd (geocode sample_python (serve lng_body) ''Berlin'' ''en'' sample_client))
         (lower ''Berlin'') = Some (Some (105 / 2, 67 / 5))
   \<and> fst (geocode sample_python (raising Timeout) ''BERLIN'' ''de''
            (snd (geocode sample_python (serve lng_body) ''Berlin'' ''en'' sample_client))) =
       Some (105 / 2, 67 / 5)
   \<and> snd (geocode sample_python (raising Timeout) ''BERLIN'' ''de''
            (snd (geocode sample_python (serve lng_body) ''Berlin'' ''en'' sample_client))) =
       snd (geocode sample_python (serve lng_body) ''Berlin'' ''en'' sample_client)
   \<and> fst (geocode_try sample_python (serve unable_body) (lower ''Berlin'') ''en'' sample_client) =
       Inr None
   \<and> fst (geocode sample_python (serve unable_body) ''Berlin'' ''en'' sample_client) = None
   \<and> geocode_hist (snd (geocode sample_python (serve unable_body) ''Berlin'' ''en'' sample_client))
         (lower ''Berlin'') = Some None
   \<and> fst (geocode sample_python (serve lng_body) ''BERLIN'' ''de''
            (snd (geocode sample_python (serve unable_body) ''Berlin'' ''en'' sample_client))) =
       None
   \<and> snd (geocode sample_python (serve lng_body) ''BERLIN'' ''de''
            (snd (geocode sample_python (serve unable_body) ''Berlin'' ''en'' sample_client))) =
       snd (geocode sample_python (serve unable_body) ''Berlin'' ''en'' sample_client)"
proof -
  have h1: "lower ''BERLIN'' = lower ''Berlin''"
    by (simp add: lower_berlin)
  have m: "geocode_hist sample_client (lower ''Berlin'') = None"
    by (simp add: sample_client_fields)
  have h2: "fst (geocode_try sample_python (serve lng_body) (lower ''Berlin'') ''en'' sample_client)
              = Inr (Some (105 / 2, 67 / 5))"
    by (simp add: geocode_try_fst make_request_sample sample_client_fields serve_def read_body_def
        first_of_list_def index_def check_error_def lng_body_def extract_latlng_def
        sample_python_def sample_float_def)
  have h3: "fst (geocode_try sample_python (serve unable_body) (lower ''Berlin'') ''en'' sample_client)
              = Inr None"
    by (simp add: geocode_try_fst make_request_sample sample_client_fields serve_def read_body_def
        first_of_list_def check_error_def unable_body_def extract_latlng_def)
  have a: "fst (geocode sample_python (serve lng_body) ''Berlin'' ''en'' sample_client) =
             Some (105 / 2, 67 / 5)
           \<and> geocode_hist (snd (geocode sample_python (serve lng_body) ''Berlin'' ''en'' sample_client))
                 (lower ''Berlin'') =
               Some (fst (geocode sample_python (serve lng_body) ''Berlin'' ''en'' sample_client))
           \<and> fst (geocode sample_python (raising Timeout) ''BERLIN'' ''de''
                    (snd (geocode sample_python (serve lng_body) ''Berlin'' ''en'' sample_client))) =
               fst (geocode sample_python (serve lng_body) ''Berlin'' ''en'' sample_client)
           \<and> snd (geocode sample_python (raising Timeout) ''BERLIN'' ''de''
                    (snd (geocode sample_python (serve lng_body) ''Berlin'' ''en'' sample_client))) =
               snd (geocode sample_python (serve lng_body) ''Berlin'' ''en'' sample_client)"
    using h1 h2 m
      geocode_second_call_cached [of "''BERLIN''" "''Berlin''" sample_client sample_python
        "serve lng_body" "''en''" sample_python "raising Timeout" "''de''"]
    by simp
  have b: "fst (geocode sample_python (serve unable_body) ''Berlin'' ''en'' sample_client) = None
           \<and> geocode_hist (snd (geocode sample_python (serve unable_body) ''Berlin'' ''en'' sample_client))
                 (lower ''Berlin'') =
               Some (fst (geocode sample_python (serve unable_body) ''Berlin'' ''en'' sample_client))
           \<and> fst (geocode sample_python (serve lng_body) ''BERLIN'' ''de''
                    (snd (geocode sample_python (serve unable_body) ''Berlin'' ''en'' sample_client))) =
               fst (geocode sample_python (serve unable_body) ''Berlin'' ''en'' sample_client)
           \<and> snd (geocode sample_python (serve lng_body) ''BERLIN'' ''de''
                    (snd (geocode sample_python (serve unable_body) ''Berlin'' ''en'' sample_client))) =
               snd (geocode sample_python (serve unable_body) ''Berlin'' ''en'' sample_client)"
    using h1 h3 m
      geocode_second_call_cached [of "''BERLIN''" "''Berlin''" sample_client sample_python
        "serve unable_body" "''en''" sample_python "serve lng_body" "''de''"]
    by simp
  show ?thesis
    using h1 h2 h3 a b by simp
qed

text \<open>
  C5. The rate limiter's blocking rule. Whatever the dispatch goes on to do, from a window
  of at most 50 timestamps: when the window holds 50 timestamps and the time elapsed
  since the oldest is less than a second, the dispatch sleeps exactly \<open>1 - elapsed\<close>
  (the clock moves by that much), and otherwise it does not sleep; the timestamp appended
  to the window is the clock after the sleep, and a window of 50 loses its oldest entry,
  so that the window never grows beyond 50.
\<close>

theorem rate_limiter_blocking_rule:
  assumes "length (window s) \<le> queries_per_second"
  shows "clock (snd (make_request session service ps s)) =
           (if length (window s) = 50 \<and> clock s - hd (window s) < 1
            then clock s + (1 - (clock s - hd (window s))) else clock s)
         \<and> window (snd (make_request session service ps s)) =
             (if length (window s) = 50 then tl (window s) else window s) @
             [clock (snd (make_request session service ps s))]
         \<and> length (window (snd (make_request session service ps s))) \<le> queries_per_second"
proof -
  have c: "clock (rate_limit s) =
             (if length (window s) = 50 \<and> clock s - hd (window s) < 1
              then clock s + (1 - (clock s - hd (window s))) else clock s)"
    by (simp add: rate_limit_def queries_per_second_def Let_def)
  have w: "window (rate_limit s) = window s"
    by (simp add: rate_limit_def Let_def)
  have d: "deque_append queries_per_second (window s) t =
             (if length (window s) = 50 then tl (window s) else window s) @ [t]" for t
    using assms by (cases "window s") (auto simp add: deque_append_def queries_per_second_def Let_def)
  have l: "length (deque_append queries_per_second (window s) t) \<le> queries_per_second" for t
    using assms by (auto simp add: deque_append_def Let_def)
  show ?thesis
    using l by (simp only: make_request_clock make_request_window w c) (simp add: d)
qed

theorem rate_limiter_blocking_rule_witness:
  "length (window busy_client) \<le> queries_per_second
   \<and> clock (snd (make_request (serve (PDict [])) ''search'' [] busy_client)) = 201 / 2
   \<and> window (snd (make_request (serve (PDict [])) ''search'' [] busy_client)) =
       replicate 49 (199 / 2) @ [201 / 2]"
  using rate_limiter_blocking_rule [of busy_client "serve (PDict [])" "''search''" "[]"]
  by (simp add: busy_client_def init_def queries_per_second_def)

text \<open>
  C6. Error containment. On a cache miss, when the dispatcher raises \<open>e\<close>, or returns a
  response whose mapping (lines 140 and 141 of \<^verbatim>\<open>geocode\<close>, lines 190 to 204 of
  \<^verbatim>\<open>reverse_geocode\<close>) raises \<open>e\<close>, the operation returns its default, \<^verbatim>\<open>None\<close> or the
  all-sentinel defaults; both memoization mappings stay as they were and the messages of
  the \<^verbatim>\<open>except\<close> clause for \<open>e\<close> are appended to the log. That nothing is raised to the
  caller is in the types: both operations return a value from every state, and \<open>e\<close>
  ranges over the subclasses of \<^verbatim>\<open>Exception\<close>, which the last clause catches.
\<close>

theorem errors_contained:
  "(geocode_hist s (lower addr) = None
    \<and> (fst (make_request session ''search'' (geocode_params (lower addr) language) s) = Inl e
       \<or> (\<exists>response.
             fst (make_request session ''search'' (geocode_params (lower addr) language) s) =
               Inr response
             \<and> extract_latlng py response = Inl e))
    \<longrightarrow> fst (geocode py session addr language s) = None
        \<and> geocode_hist (snd (geocode py session addr language s)) = geocode_hist s
        \<and> reverse_geocode_hist (snd (geocode py session addr language s)) = reverse_geocode_hist s
        \<and> logged (snd (geocode py session addr language s)) = logged s @ handler ''Geocode'' e)
   \<and> (reverse_geocode_hist s
         (StrKey (format_5f py (fst latlng) @ '','' @ format_5f py (snd latlng))) = None
    \<and> (fst (make_request session ''reverse'' (reverse_params latlng language) s) = Inl e
       \<or> (\<exists>response.
             fst (make_request session ''reverse'' (reverse_params latlng language) s) =
               Inr response
             \<and> map_response py unk (reverse_geocode_defaults unk) response = Inl e))
    \<longrightarrow> fst (reverse_geocode py unk session latlng language s) = reverse_geocode_defaults unk
        \<and> geocode_hist (snd (reverse_geocode py unk session latlng language s)) = geocode_hist s
        \<and> reverse_geocode_hist (snd (reverse_geocode py unk session latlng language s)) =
            reverse_geocode_hist s
        \<and> logged (snd (reverse_geocode py unk session latlng language s)) =
            logged s @ handler ''Reverse Geocode'' e)"
proof (intro conjI impI)
  assume a: "geocode_hist s (lower addr) = None
    \<and> (fst (make_request session ''search'' (geocode_params (lower addr) language) s) = Inl e
       \<or> (\<exists>response.
             fst (make_request session ''search'' (geocode_params (lower addr) language) s) =
               Inr response
             \<and> extract_latlng py response = Inl e))"
  then have t: "fst (geocode_try py session (lower addr) language s) = Inl e"
    by (auto simp add: geocode_try_fst)
  have g: "geocode py session addr language s =
             (None, (snd (geocode_try py session (lower addr) language s))
                      \<lparr>logged := logged s @ handler ''Geocode'' e\<rparr>)"
    using a t by (simp add: geocode_miss)
  show "fst (geocode py session addr language s) = None"
    by (simp add: g)
  show "geocode_hist (snd (geocode py session addr language s)) = geocode_hist s"
    by (simp add: g geocode_try_snd make_request_geocode_hist)
  show "reverse_geocode_hist (snd (geocode py session addr language s)) = reverse_geocode_hist s"
    by (simp add: g geocode_try_snd make_request_reverse_geocode_hist)
  show "logged (snd (geocode py session addr language s)) = logged s @ handler ''Geocode'' e"
    by (simp add: g)
next
  let ?d = "reverse_geocode_defaults unk"
  assume a: "reverse_geocode_hist s
         (StrKey (format_5f py (fst latlng) @ '','' @ format_5f py (snd latlng))) = None
    \<and> (fst (make_request session ''reverse'' (reverse_params latlng language) s) = Inl e
       \<or> (\<exists>response.
             fst (make_request session ''reverse'' (reverse_params latlng language) s) =
               Inr response
             \<and> map_response py unk (reverse_geocode_defaults unk) response = Inl e))"
  then have t: "fst (reverse_geocode_try py unk session ?d latlng language s) = Inl e"
    by (auto simp add: reverse_geocode_try_fst)
  have g: "reverse_geocode py unk session latlng language s =
             (?d, (snd (reverse_geocode_try py unk session ?d latlng language s))
                    \<lparr>logged := logged s @ handler ''Reverse Geocode'' e\<rparr>)"
    using a t by (simp add: reverse_geocode_miss)
  show "fst (reverse_geocode py unk session latlng language s) = ?d"
    by (simp add: g)
  show "geocode_hist (snd (reverse_geocode py unk session latlng language s)) = geocode_hist s"
    by (simp add: g reverse_geocode_try_snd make_request_geocode_hist)
  show "reverse_geocode_hist (snd (reverse_geocode py unk session latlng language s)) =
          reverse_geocode_hist s"
    by (simp add: g reverse_geocode_try_snd make_request_reverse_geocode_hist)
  show "logged (snd (reverse_geocode py unk session latlng language s)) =
          logged s @ handler ''Reverse Geocode'' e"
    by (simp add: g)
qed

theorem errors_contained_witness:
  "geocode_hist sample_client (lower ''Berlin'') = None
   \<and> fst (make_request (raising Timeout) ''search'' (geocode_params (lower ''Berlin'') ''en'')
            sample_client) = Inl Timeout
   \<and> fst (geocode sample_python (raising Timeout) ''Berlin'' ''en'' sample_client) = None
   \<and> geocode_hist (snd (geocode sample_python (raising Timeout) ''Berlin'' ''en'' sample_client)) =
       geocode_hist sample_client
   \<and> logged (snd (geocode sample_python (raising Timeout) ''Berlin'' ''en'' sample_client)) =
       [''Geocode failed with connection issues'']
   \<and> reverse_geocode_hist sample_client
         (StrKey (format_5f sample_python (fst (105 / 2, 67 / 5 :: real)) @ '','' @
                  format_5f sample_python (snd (105 / 2 :: real, 67 / 5)))) = None
   \<and> fst (make_request (serve odd_body) ''reverse'' (reverse_params (105 / 2, 67 / 5) ''en'')
            sample_client) = Inr odd_body
   \<and> map_response sample_python sample_unknown (reverse_geocode_defaults sample_unknown) odd_body =
       Inl AttributeError
   \<and> fst (reverse_geocode sample_python sample_unknown (serve odd_body) (105 / 2, 67 / 5) ''en''
            sample_client) = reverse_geocode_defaults sample_unknown
   \<and> reverse_geocode_hist
         (snd (reverse_geocode sample_python sample_unknown (serve odd_body) (105 / 2, 67 / 5) ''en''
                 sample_client)) = reverse_geocode_hist sample_client
   \<and> logged
         (snd (reverse_geocode sample_python sample_unknown (serve odd_body) (105 / 2, 67 / 5) ''en''
                 sample_client)) =
       [''Reverse Geocode failed because unexpected error has occurred'', ''Stack trace'']"
proof -
  have h1: "geocode_hist sample_client (lower ''Berlin'') = None"
    by (simp add: sample_client_fields)
  have h2: "fst (make_request (raising Timeout) ''search'' (geocode_params (lower ''Berlin'') ''en'')
              sample_client) = Inl Timeout"
    by (simp add: make_request_sample sample_client_fields raising_def)
  have h3: "reverse_geocode_hist sample_client
              (StrKey (format_5f sample_python (fst (105 / 2, 67 / 5 :: real)) @ '','' @
                       format_5f sample_python (snd (105 / 2 :: real, 67 / 5)))) = None"
    by (simp add: sample_client_fields)
  have h4: "fst (make_request (serve odd_body) ''reverse'' (reverse_params (105 / 2, 67 / 5) ''en'')
              sample_client) = Inr odd_body"
    by (simp add: make_request_sample sample_client_fields serve_def read_body_def odd_body_def
        first_of_list_def check_error_def)
  have h5: "map_response sample_python sample_unknown (reverse_geocode_defaults sample_unknown)
              odd_body = Inl AttributeError"
    by (simp add: map_response_def fill_dts_def dict_get_def odd_body_def)
  have g: "fst (geocode sample_python (raising Timeout) ''Berlin'' ''en'' sample_client) = None
        \<and> geocode_hist (snd (geocode sample_python (raising Timeout) ''Berlin'' ''en'' sample_client)) =
            geocode_hist sample_client
        \<and> logged (snd (geocode sample_python (raising Timeout) ''Berlin'' ''en'' sample_client)) =
            logged sample_client @ handler ''Geocode'' Timeout"
    using h1 h2
      errors_contained [where s = sample_client and addr = "''Berlin''" and language = "''en''"
        and session = "raising Timeout" and e = Timeout and py = sample_python]
    by blast
  have r: "fst (reverse_geocode sample_python sample_unknown (serve odd_body) (105 / 2, 67 / 5) ''en''
                  sample_client) = reverse_geocode_defaults sample_unknown
        \<and> reverse_geocode_hist
              (snd (reverse_geocode sample_python sample_unknown (serve odd_body) (105 / 2, 67 / 5)
                      ''en'' sample_client)) = reverse_geocode_hist sample_client
        \<and> logged
              (snd (reverse_geocode sample_python sample_unknown (serve odd_body) (105 / 2, 67 / 5)
                      ''en'' sample_client)) =
            logged sample_client @ handler ''Reverse Geocode'' AttributeError"
    using h3 h4 h5
      errors_contained [where s = sample_client and latlng = "(105 / 2, 67 / 5)"
        and language = "''en''" and session = "serve odd_body" and e = AttributeError
        and py = sample_python and unk = sample_unknown]
    by blast
  show ?thesis
    using h1 h2 h3 h4 h5 g r by (simp add: sample_client_fields handler_def)
qed

text \<open>
  C7. On a cache miss, when the body parsed by the dispatch is exactly
  \<^verbatim>\<open>{"error": "Unable to geocode"}\<close>: the dispatcher returns the empty dict, \<^verbatim>\<open>geocode\<close>
  returns \<^verbatim>\<open>None\<close> and stores it under the lower-cased address, and a repeated call for
  the address, whatever the server would answer, returns \<^verbatim>\<open>None\<close> and leaves the state as
  it is, the list of requests sent included.
\<close>

theorem unable_to_geocode_memoized:
  assumes "geocode_hist s (lower addr) = None"
    and "parsed_body session ''search'' (geocode_params (lower addr) language) s =
           Some (PDict [(''error'', PStr ''Unable to geocode'')])"
  shows "fst (make_request session ''search'' (geocode_params (lower addr) language) s) =
           Inr (PDict [])
         \<and> fst (geocode py session addr language s) = None
         \<and> geocode_hist (snd (geocode py session addr language s)) (lower addr) = Some None
         \<and> geocode py' session' addr language' (snd (geocode py session addr language s)) =
             (None, snd (geocode py session addr language s))"
proof -
  have d: "fst (make_request session ''search'' (geocode_params (lower addr) language) s) =
             Inr (PDict [])"
    using make_request_parsed [OF assms(2)] by (simp add: first_of_list_def check_error_unable)
  then have t: "fst (geocode_try py session (lower addr) language s) = Inr None"
    by (simp add: geocode_try_fst extract_latlng_no_lng)
  let ?s1 = "(snd (geocode_try py session (lower addr) language s))
               \<lparr>geocode_hist := (geocode_hist s)(lower addr \<mapsto> None)\<rparr>"
  have g: "geocode py session addr language s = (None, ?s1)"
    using assms(1) t by (simp add: geocode_miss)
  have "geocode_hist ?s1 (lower addr) = Some None"
    by simp
  then have "geocode py' session' addr language' ?s1 = (None, ?s1)"
    by (rule geocode_hit)
  with d g show ?thesis by simp
qed

theorem unable_to_geocode_memoized_witness:
  "geocode_hist sample_client (lower ''Atlantis'') = None
   \<and> parsed_body (serve (PDict [(''error'', PStr ''Unable to geocode'')])) ''search''
         (geocode_params (lower ''Atlantis'') ''en'') sample_client =
       Some (PDict [(''error'', PStr ''Unable to geocode'')])
   \<and> fst (make_request (serve (PDict [(''error'', PStr ''Unable to geocode'')])) ''search''
            (geocode_params (lower ''Atlantis'') ''en'') sample_client) = Inr (PDict [])
   \<and> fst (geocode sample_python (serve (PDict [(''error'', PStr ''Unable to geocode'')]))
            ''Atlantis'' ''en'' sample_client) = None
   \<and> geocode_hist
         (snd (geocode sample_python (serve (PDict [(''error'', PStr ''Unable to geocode'')]))
                 ''Atlantis'' ''en'' sample_client))
         (lower ''Atlantis'') = Some None
   \<and> geocode sample_python (serve berlin_body) ''Atlantis'' ''en''
         (snd (geocode sample_python (serve (PDict [(''error'', PStr ''Unable to geocode'')]))
                 ''Atlantis'' ''en'' sample_client)) =
       (None,
        snd (geocode sample_python (serve (PDict [(''error'', PStr ''Unable to geocode'')]))
               ''Atlantis'' ''en'' sample_client))"
proof -
  have h1: "geocode_hist sample_client (lower ''Atlantis'') = None"
    by (simp add: sample_client_fields)
  have h2: "parsed_body (serve (PDict [(''error'', PStr ''Unable to geocode'')])) ''search''
              (geocode_params (lower ''Atlantis'') ''en'') sample_client =
            Some (PDict [(''error'', PStr ''Unable to geocode'')])"
    by (simp add: parsed_body_sample sample_client_fields serve_def)
  show ?thesis
    using h1 h2
      unable_to_geocode_memoized [OF h1 h2, where py = sample_python and py' = sample_python
        and session' = "serve berlin_body" and language' = "''en''"]
    by simp
qed

text \<open>
  C8. When the body parsed by the dispatch is a dict whose \<^verbatim>\<open>error\<close> field is anything
  but the string \<^verbatim>\<open>Unable to geocode\<close>, the dispatcher raises ValueError; on a cache miss
  \<^verbatim>\<open>geocode\<close> then returns \<^verbatim>\<open>None\<close> and \<^verbatim>\<open>reverse_geocode\<close> the defaults, each logs the
  two messages of its last \<^verbatim>\<open>except\<close> clause, and its memoization mapping is unchanged.
\<close>

theorem provider_error_not_cached:
  assumes "map_of d ''error'' = Some v" and "v \<noteq> PStr ''Unable to geocode''"
  shows "(geocode_hist s (lower addr) = None
          \<and> parsed_body session ''search'' (geocode_params (lower addr) language) s = Some (PDict d)
          \<longrightarrow> fst (make_request session ''search'' (geocode_params (lower addr) language) s) =
                Inl ValueError
              \<and> fst (geocode py session addr language s) = None
              \<and> geocode_hist (snd (geocode py session addr language s)) = geocode_hist s
              \<and> logged (snd (geocode py session addr language s)) =
                  logged s @ [''Geocode failed because unexpected error has occurred'',
                              ''Stack trace''])
         \<and> (reverse_geocode_hist s
               (StrKey (format_5f py (fst latlng) @ '','' @ format_5f py (snd latlng))) = None
          \<and> parsed_body session ''reverse'' (reverse_params latlng language) s = Some (PDict d)
          \<longrightarrow> fst (make_request session ''reverse'' (reverse_params latlng language) s) =
                Inl ValueError
              \<and> fst (reverse_geocode py unk session latlng language s) =
                  reverse_geocode_defaults unk
              \<and> reverse_geocode_hist (snd (reverse_geocode py unk session latlng language s)) =
                  reverse_geocode_hist s
              \<and> logged (snd (reverse_geocode py unk session latlng language s)) =
                  logged s @ [''Reverse Geocode failed because unexpected error has occurred'',
                              ''Stack trace''])"
proof (intro conjI impI)
  assume a: "geocode_hist s (lower addr) = None
             \<and> parsed_body session ''search'' (geocode_params (lower addr) language) s = Some (PDict d)"
  then have m: "fst (make_request session ''search'' (geocode_params (lower addr) language) s) =
                  Inl ValueError"
    using make_request_parsed [of session "''search''" "geocode_params (lower addr) language" s "PDict d"]
      check_error_other [OF assms]
    by (simp add: first_of_list_def)
  then have t: "fst (geocode_try py session (lower addr) language s) = Inl ValueError"
    by (simp add: geocode_try_fst)
  have g: "geocode py session addr language s =
             (None, (snd (geocode_try py session (lower addr) language s))
                      \<lparr>logged := logged s @ handler ''Geocode'' ValueError\<rparr>)"
    using a t by (simp add: geocode_miss)
  show "fst (make_request session ''search'' (geocode_params (lower addr) language) s) =
          Inl ValueError"
    by (rule m)
  show "fst (geocode py session addr language s) = None"
    by (simp add: g)
  show "geocode_hist (snd (geocode py session addr language s)) = geocode_hist s"
    by (simp add: g geocode_try_snd make_request_geocode_hist)
  show "logged (snd (geocode py session addr language s)) =
          logged s @ [''Geocode failed because unexpected error has occurred'', ''Stack trace'']"
    by (simp add: g handler_def)
next
  assume a: "reverse_geocode_hist s
               (StrKey (format_5f py (fst latlng) @ '','' @ format_5f py (snd latlng))) = None
             \<and> parsed_body session ''reverse'' (reverse_params latlng language) s = Some (PDict d)"
  then have m: "fst (make_request session ''reverse'' (reverse_params latlng language) s) =
                  Inl ValueError"
    using make_request_parsed [of session "''reverse''" "reverse_params latlng language" s "PDict d"]
      check_error_other [OF assms]
    by (simp add: first_of_list_def)
  then have t: "fst (reverse_geocode_try py unk session (reverse_geocode_defaults unk) latlng language s)
                  = Inl ValueError"
    by (simp add: reverse_geocode_try_fst)
  have g: "reverse_geocode py unk session latlng language s =
             (reverse_geocode_defaults unk,
              (snd (reverse_geocode_try py unk session (reverse_geocode_defaults unk) latlng language s))
                \<lparr>logged := logged s @ handler ''Reverse Geocode'' ValueError\<rparr>)"
    using a t by (simp add: reverse_geocode_miss)
  show "fst (make_request session ''reverse'' (reverse_params latlng language) s) = Inl ValueError"
    by (rule m)
  show "fst (reverse_geocode py unk session latlng language s) = reverse_geocode_defaults unk"
    by (simp add: g)
  show "reverse_geocode_hist (snd (reverse_geocode py unk session latlng language s)) =
          reverse_geocode_hist s"
    by (simp add: g reverse_geocode_try_snd make_request_reverse_geocode_hist)
  show "logged (snd (reverse_geocode py unk session latlng language s)) =
          logged s @ [''Reverse Geocode failed because unexpected error has occurred'',
                      ''Stack trace'']"
    by (simp add: g handler_def)
qed

theorem provider_error_not_cached_witness:
  "map_of [(''error'', PStr ''quota exceeded'')] ''error'' = Some (PStr ''quota exceeded'' :: real pyval)
   \<and> PStr ''quota exceeded'' \<noteq> (PStr ''Unable to geocode'' :: real pyval)
   \<and> geocode_hist sample_client (lower ''Berlin'') = None
   \<and> parsed_body (serve quota_body) ''search'' (geocode_params (lower ''Berlin'') ''en'') sample_client =
       Some (PDict [(''error'', PStr ''quota exceeded'')])
   \<and> fst (geocode sample_python (serve quota_body) ''Berlin'' ''en'' sample_client) = None
   \<and> geocode_hist (snd (geocode sample_python (serve quota_body) ''Berlin'' ''en'' sample_client)) =
       geocode_hist sample_client
   \<and> logged (snd (geocode sample_python (serve quota_body) ''Berlin'' ''en'' sample_client)) =
       [''Geocode failed because unexpected error has occurred'', ''Stack trace'']
   \<and> reverse_geocode_hist sample_client
         (StrKey (format_5f sample_python (fst (105 / 2, 67 / 5 :: real)) @ '','' @
                  format_5f sample_python (snd (105 / 2 :: real, 67 / 5)))) = None
   \<and> parsed_body (serve quota_body) ''reverse'' (reverse_params (105 / 2, 67 / 5) ''en'') sample_client =
       Some (PDict [(''error'', PStr ''quota exceeded'')])
   \<and> fst (reverse_geocode sample_python sample_unknown (serve quota_body) (105 / 2, 67 / 5) ''en''
            sample_client) = reverse_geocode_defaults sample_unknown
   \<and> reverse_geocode_hist
         (snd (reverse_geocode sample_python sample_unknown (serve quota_body) (105 / 2, 67 / 5) ''en''
                 sample_client)) = reverse_geocode_hist sample_client
   \<and> logged
         (snd (reverse_geocode sample_python sample_unknown (serve quota_body) (105 / 2, 67 / 5) ''en''
                 sample_client)) =
       [''Reverse Geocode failed because unexpected error has occurred'', ''Stack trace'']"
proof -
  have h1: "map_of [(''error'', PStr ''quota exceeded'')] ''error'' =
              Some (PStr ''quota exceeded'' :: real pyval)"
    by simp
  have h2: "PStr ''quota exceeded'' \<noteq> (PStr ''Unable to geocode'' :: real pyval)"
    by simp
  have h3: "geocode_hist sample_client (lower ''Berlin'') = None"
    by (simp add: sample_client_fields)
  have h4: "parsed_body (serve quota_body) ''search'' (geocode_params (lower ''Berlin'') ''en'')
              sample_client = Some (PDict [(''error'', PStr ''quota exceeded'')])"
    by (simp add: parsed_body_sample sample_client_fields serve_def quota_body_def)
  have h5: "reverse_geocode_hist sample_client
              (StrKey (format_5f sample_python (fst (105 / 2, 67 / 5 :: real)) @ '','' @
                       format_5f sample_python (snd (105 / 2 :: real, 67 / 5)))) = None"
    by (simp add: sample_client_fields)
  have h6: "parsed_body (serve quota_body) ''reverse'' (reverse_params (105 / 2, 67 / 5) ''en'')
              sample_client = Some (PDict [(''error'', PStr ''quota exceeded'')])"
    by (simp add: parsed_body_sample sample_client_fields serve_def quota_body_def)
  show ?thesis
    using h1 h2 h3 h4 h5 h6
      provider_error_not_cached [OF h1 h2, where s = sample_client and addr = "''Berlin''"
        and session = "serve quota_body" and language = "''en''" and py = sample_python
        and latlng = "(105 / 2, 67 / 5)" and unk = sample_unknown]
    by (simp add: sample_client_fields)
qed

text \<open>
  C9. The field mapping of \<^verbatim>\<open>reverse_geocode\<close>, on a cache miss, for a response that is a
  dict whose \<^verbatim>\<open>address\<close> is a dict. The street is the first of \<^verbatim>\<open>road\<close>, \<^verbatim>\<open>street\<close>,
  \<^verbatim>\<open>city_block\<close>, \<^verbatim>\<open>retail\<close> that the address has, else \<^verbatim>\<open>EMPTY\<close>. When the address is
  exactly \<^verbatim>\<open>{road: "Main St", house_number: "42"}\<close>, the result has \<^verbatim>\<open>42 Main St\<close> as
  \<^verbatim>\<open>address\<close> and \<^verbatim>\<open>Main St 42\<close> as \<^verbatim>\<open>address_eu\<close>, the two given values as street
  number and street, and the sentinel \<^verbatim>\<open>REGULAR\<close> in each of the seven fields that the
  response says nothing about.
\<close>

theorem reverse_geocode_field_mapping:
  assumes "reverse_geocode_hist s
             (StrKey (format_5f py (fst latlng) @ '','' @ format_5f py (snd latlng))) = None"
    and "fst (make_request session ''reverse'' (reverse_params latlng language) s) = Inr (PDict r)"
    and "map_of r ''address'' = Some (PDict details)"
  shows "street (fst (reverse_geocode py unk session latlng language s)) =
           first_match details [''road'', ''street'', ''city_block'', ''retail''] (EMPTY unk)
         \<and> (map_of details = [''road'' \<mapsto> PStr ''Main St'', ''house_number'' \<mapsto> PStr ''42'']
            \<longrightarrow> fst (reverse_geocode py unk session latlng language s) =
                  \<lparr>street_num = PStr ''42'', street = PStr ''Main St'',
                   address = PStr ''42 Main St'', address_eu = PStr ''Main St 42'',
                   postal = REGULAR unk, neighborhood = REGULAR unk, sublocality = REGULAR unk,
                   city = REGULAR unk, county = REGULAR unk, state = REGULAR unk,
                   country = REGULAR unk\<rparr>)"
proof -
  have a: "dict_get r ''address'' (PList []) = PDict details"
    using assms(3) by (simp add: dict_get_def)
  obtain d where f: "fill_dts py unk (reverse_geocode_defaults unk) (PDict r) = Inr d"
    by (simp add: fill_dts_def a Let_def)
  have m: "map_response py unk (reverse_geocode_defaults unk) (PDict r) = Inr d"
    using assms(3) f by (simp add: map_response_def)
  have g: "fst (reverse_geocode py unk session latlng language s) = d"
    by (simp add: reverse_geocode_mapped [OF assms(1,2) m])
  have fm: "first_match details [''road'', ''street'', ''city_block'', ''retail''] (EMPTY unk) =
              dict_get details ''road''
                (dict_get details ''street''
                  (dict_get details ''city_block'' (dict_get details ''retail'' (EMPTY unk))))"
    by (simp only: first_match_dict_get first_match.simps(1))
  have st: "map_sum id street (fill_dts py unk (reverse_geocode_defaults unk) (PDict r)) =
              Inr (dict_get details ''road''
                    (dict_get details ''street''
                      (dict_get details ''city_block''
                        (dict_get details ''retail'' (EMPTY unk)))))"
    by (simp add: fill_dts_def a Let_def)
  have chain: "street d =
      first_match details [''road'', ''street'', ''city_block'', ''retail''] (EMPTY unk)"
    using st unfolding f fm by simp
  have example: "d =
          \<lparr>street_num = PStr ''42'', street = PStr ''Main St'',
           address = PStr ''42 Main St'', address_eu = PStr ''Main St 42'',
           postal = REGULAR unk, neighborhood = REGULAR unk, sublocality = REGULAR unk,
           city = REGULAR unk, county = REGULAR unk, state = REGULAR unk,
           country = REGULAR unk\<rparr>"
    if "map_of details = [''road'' \<mapsto> PStr ''Main St'', ''house_number'' \<mapsto> PStr ''42'']"
  proof -
    have l: "dict_get details k dflt =
               (if k = ''house_number'' then PStr ''42''
                else if k = ''road'' then PStr ''Main St'' else dflt)" for k dflt
      by (simp add: dict_get_def that)
    have "fill_dts py unk (reverse_geocode_defaults unk) (PDict r) =
            Inr \<lparr>street_num = PStr ''42'', street = PStr ''Main St'',
                 address = PStr ''42 Main St'', address_eu = PStr ''Main St 42'',
                 postal = REGULAR unk, neighborhood = REGULAR unk, sublocality = REGULAR unk,
                 city = REGULAR unk, county = REGULAR unk, state = REGULAR unk,
                 country = REGULAR unk\<rparr>"
      by (simp add: fill_dts_def a Let_def l format_value_def reverse_geocode_defaults_def)
    then show ?thesis
      by (simp only: f sum.inject)
  qed
  show ?thesis
    using g chain example by simp
qed

theorem reverse_geocode_field_mapping_witness:
  "reverse_geocode_hist sample_client
     (StrKey (format_5f sample_python (fst (105 / 2, 67 / 5 :: real)) @ '','' @
              format_5f sample_python (snd (105 / 2 :: real, 67 / 5)))) = None
   \<and> fst (make_request (serve main_st_body) ''reverse'' (reverse_params (105 / 2, 67 / 5) ''en'')
            sample_client) =
       Inr (PDict [(''address'',
                    PDict [(''road'', PStr ''Main St''), (''house_number'', PStr ''42'')])])
   \<and> map_of [(''road'', PStr ''Main St''), (''house_number'', PStr ''42'' :: real pyval)] =
       [''road'' \<mapsto> PStr ''Main St'', ''house_number'' \<mapsto> PStr ''42'']
   \<and> fst (reverse_geocode sample_python sample_unknown (serve main_st_body) (105 / 2, 67 / 5) ''en''
            sample_client) =
       \<lparr>street_num = PStr ''42'', street = PStr ''Main St'',
        address = PStr ''42 Main St'', address_eu = PStr ''Main St 42'',
        postal = PStr ''unknown'', neighborhood = PStr ''unknown'', sublocality = PStr ''unknown'',
        city = PStr ''unknown'', county = PStr ''unknown'', state = PStr ''unknown'',
        country = PStr ''unknown''\<rparr>"
proof -
  have h1: "reverse_geocode_hist sample_client
              (StrKey (format_5f sample_python (fst (105 / 2, 67 / 5 :: real)) @ '','' @
                       format_5f sample_python (snd (105 / 2 :: real, 67 / 5)))) = None"
    by (simp add: sample_client_fields)
  have h2: "fst (make_request (serve main_st_body) ''reverse''
                   (reverse_params (105 / 2, 67 / 5) ''en'') sample_client) =
            Inr (PDict [(''address'',
                         PDict [(''road'', PStr ''Main St''), (''house_number'', PStr ''42'')])])"
    by (simp add: make_request_sample sample_client_fields serve_def read_body_def main_st_body_def
        first_of_list_def check_error_def)
  have h3: "map_of [(''address'',
                     PDict [(''road'', PStr ''Main St''), (''house_number'', PStr ''42'')])]
              ''address'' =
            Some (PDict [(''road'', PStr ''Main St''), (''house_number'', PStr ''42'' :: real pyval)])"
    by simp
  have h4: "map_of [(''road'', PStr ''Main St''), (''house_number'', PStr ''42'' :: real pyval)] =
              [''road'' \<mapsto> PStr ''Main St'', ''house_number'' \<mapsto> PStr ''42'']"
    by (rule ext) simp
  show ?thesis
    using h1 h2 h4 reverse_geocode_field_mapping [OF h1 h2 h3, of sample_unknown]
    by (simp add: sample_unknown_def)
qed

text \<open>
  C10. \<^verbatim>\<open>geocode\<close> reads the longitude under \<^verbatim>\<open>lng\<close> only. On a cache miss, when the
  dispatcher returns a dict with \<^verbatim>\<open>lat\<close> and \<^verbatim>\<open>lon\<close> and without \<^verbatim>\<open>lng\<close>, \<^verbatim>\<open>geocode\<close>
  returns \<^verbatim>\<open>None\<close> and stores \<^verbatim>\<open>None\<close> under the lower-cased address.
\<close>

theorem geocode_ignores_lon:
  assumes "geocode_hist s (lower addr) = None"
    and "fst (make_request session ''search'' (geocode_params (lower addr) language) s) =
           Inr (PDict d)"
    and "map_of d ''lat'' = Some v_lat"
    and "map_of d ''lon'' = Some v_lon"
    and "map_of d ''lng'' = None"
  shows "fst (geocode py session addr language s) = None
         \<and> geocode_hist (snd (geocode py session addr language s)) (lower addr) = Some None"
proof -
  have "fst (geocode_try py session (lower addr) language s) = Inr None"
    using assms(2,5) by (simp add: geocode_try_fst extract_latlng_no_lng)
  then show ?thesis
    using assms(1) by (simp add: geocode_miss)
qed

theorem geocode_ignores_lon_witness:
  "geocode_hist sample_client (lower ''Berlin'') = None
   \<and> fst (make_request (serve berlin_body) ''search'' (geocode_params (lower ''Berlin'') ''en'')
            sample_client) =
       Inr (PDict [(''lat'', PStr ''52.5''), (''lon'', PStr ''13.4''),
                   (''display_name'', PStr ''Berlin, Deutschland'')])
   \<and> fst (geocode sample_python (serve berlin_body) ''Berlin'' ''en'' sample_client) = None
   \<and> geocode_hist (snd (geocode sample_python (serve berlin_body) ''Berlin'' ''en'' sample_client))
         (lower ''Berlin'') = Some None"
proof -
  have h1: "geocode_hist sample_client (lower ''Berlin'') = None"
    by (simp add: sample_client_fields)
  have h2: "fst (make_request (serve berlin_body) ''search'' (geocode_params (lower ''Berlin'') ''en'')
              sample_client) =
            Inr (PDict [(''lat'', PStr ''52.5''), (''lon'', PStr ''13.4''),
                        (''display_name'', PStr ''Berlin, Deutschland'')])"
    by (simp add: make_request_sample sample_client_fields serve_def read_body_def berlin_body_def
        first_of_list_def index_def check_error_def)
  show ?thesis
    using h1 h2
      geocode_ignores_lon [OF h1 h2, of "PStr ''52.5''" "PStr ''13.4''" sample_python]
    by simp
qed

end
